theory Spec2Isabelle
  imports Main "HOL-Library.Sublist"
begin

section \<open>Data model of query.py\<close>

text \<open>
  The exceptions the script can raise. \<open>KeyError\<close> carries the missing key,
  as Python's does.
\<close>

datatype error =
    StopIteration
  | OSError
  | ParseError
  | JSONDecodeError
  | TypeError
  | KeyError string
  | IndexError
  | AssertionError

text \<open>
  An element of a parsed document, as \<open>xml.etree.ElementTree\<close> holds it: the tag in
  Clark notation (\<open>{namespace}local\<close>), the attribute dictionary and the child
  elements in document order. Text content is never read by the script.
\<close>

datatype element = Element string "string \<rightharpoonup> string" "element list"

fun tag :: "element \<Rightarrow> string" where
  "tag (Element t a cs) = t"

fun attrib :: "element \<Rightarrow> string \<rightharpoonup> string" where
  "attrib (Element t a cs) = a"

fun children :: "element \<Rightarrow> element list" where
  "children (Element t a cs) = cs"

text \<open>\<open>person.get("ref")\<close>: the attribute value, or \<open>None\<close>.\<close>

definition get :: "element \<Rightarrow> string \<Rightarrow> string option" where
  "get e k = attrib e k"

text \<open>
  The XML parser is the standard library's, not the script's. The text of a file
  is represented by what \<open>ET.fromstring\<close> makes of it: the root element of a
  well-formed document, or a \<open>ParseError\<close>.
\<close>

datatype xml_text = WellFormed element | Malformed

fun fromstring :: "xml_text \<Rightarrow> error + element" where
  "fromstring (WellFormed root) = Inr root"
| "fromstring Malformed = Inl ParseError"

text \<open>
  \<open>dict[str, int]\<close>: Python dictionaries keep insertion order and \<open>items()\<close>
  walks them in that order, so the dictionary is its list of items. Assigning to
  a key that is present replaces the value in place; a new key goes to the end.
\<close>

type_synonym counts = "(string \<times> int) list"

fun setitem :: "counts \<Rightarrow> string \<Rightarrow> int \<Rightarrow> counts" where
  "setitem [] k v = [(k, v)]"
| "setitem ((k', v') # d) k v =
     (if k' = k then (k, v) # d else (k', v') # setitem d k v)"

text \<open>A record of the database dump: a JSON object, \<open>dict[str, str]\<close>.\<close>

type_synonym person = "string \<rightharpoonup> string"

text \<open>An entry of the ranking: name, ID and number of references.\<close>

type_synonym entry = "string \<times> string \<times> int"

section \<open>extract_referenced_persons\<close>

text \<open>
  \<open>elem.iter()\<close>: the element and all elements below it, in document order.
\<close>

fun iter :: "element \<Rightarrow> element list" where
  "iter (Element t a cs) = Element t a cs # concat (map iter cs)"

text \<open>
  \<open>root.findall(".//tei:persname[@ref]", ns)\<close>: the step \<open>.//\<close> selects the
  elements below the root on all levels (the root itself is left out), the name
  test keeps those with the tag \<open>persname\<close> in the TEI namespace, and the
  predicate \<open>[@ref]\<close> keeps those that have an attribute \<open>ref\<close>.
\<close>

definition tei :: string where
  "tei = ''http://www.tei-c.org/ns/1.0''"

definition persname_tag :: string where
  "persname_tag = ''{'' @ tei @ ''}persname''"

definition has_ref :: "element \<Rightarrow> bool" where
  "has_ref e = (case get e ''ref'' of None \<Rightarrow> False | Some r \<Rightarrow> True)"

definition findall :: "element \<Rightarrow> element list" where
  "findall root =
     filter has_ref
       (filter (\<lambda>e. tag e = persname_tag) (concat (map iter (children root))))"

text \<open>
  The inner loop over the matches of one document. \<open>ref[:9]\<close> on \<open>None\<close> is a
  \<open>TypeError\<close>; on a string it is the first nine characters, or the whole
  string when it is shorter.
\<close>

fun count_matches :: "element list \<Rightarrow> counts \<Rightarrow> error + counts" where
  "count_matches [] persons = Inr persons"
| "count_matches (person # rest) persons =
     (case get person ''ref'' of
        None \<Rightarrow> Inl TypeError
      | Some ref \<Rightarrow> count_matches rest (setitem persons (take 9 ref) 1))"

text \<open>The outer loop over the files.\<close>

fun count_files :: "xml_text list \<Rightarrow> counts \<Rightarrow> error + counts" where
  "count_files [] persons = Inr persons"
| "count_files (file # rest) persons =
     (case fromstring file of
        Inl e \<Rightarrow> Inl e
      | Inr root \<Rightarrow>
          (case count_matches (findall root) persons of
             Inl e \<Rightarrow> Inl e
           | Inr persons' \<Rightarrow> count_files rest persons'))"

definition extract_referenced_persons :: "xml_text list \<Rightarrow> error + counts" where
  "extract_referenced_persons xml_files = count_files xml_files []"

section \<open>get_top_persons\<close>

text \<open>
  The inner loop over the database for one item of \<open>references\<close>. Both
  subscripts \<open>person["name"]\<close> and \<open>person["id"]\<close> raise \<open>KeyError\<close> when the
  key is missing.
\<close>

fun scan_db :: "string \<Rightarrow> int \<Rightarrow> person list \<Rightarrow> entry list \<Rightarrow> error + entry list" where
  "scan_db person_id count [] result = Inr result"
| "scan_db person_id count (person # db) result =
     (case person ''name'' of
        None \<Rightarrow> Inl (KeyError ''name'')
      | Some name \<Rightarrow>
          if name = person_id then
            (case person ''id'' of
               None \<Rightarrow> Inl (KeyError ''id'')
             | Some ident \<Rightarrow> scan_db person_id count db (result @ [(name, ident, count)]))
          else scan_db person_id count db result)"

text \<open>The outer loop over \<open>references.items()\<close>.\<close>

fun scan_references :: "counts \<Rightarrow> person list \<Rightarrow> entry list \<Rightarrow> error + entry list" where
  "scan_references [] db result = Inr result"
| "scan_references ((person_id, count) # items) db result =
     (case scan_db person_id count db result of
        Inl e \<Rightarrow> Inl e
      | Inr result' \<Rightarrow> scan_references items db result')"

text \<open>The sort key \<open>lambda x: x[2]\<close>.\<close>

definition refcount :: "entry \<Rightarrow> int" where
  "refcount x = snd (snd x)"

text \<open>
  \<open>sorted(result, key=..., reverse=True)\<close>: Python's sort is stable, and with
  \<open>reverse=True\<close> it reverses the list, sorts it in ascending order and reverses
  it again, so that equal keys keep their original order.
\<close>

definition sorted_reverse :: "entry list \<Rightarrow> entry list" where
  "sorted_reverse result = rev (sort_key refcount (rev result))"

text \<open>
  The slice \<open>xs[:n]\<close>: the first \<open>n\<close> items for \<open>n \<ge> 0\<close>, all but the last
  \<open>-n\<close> items for \<open>n < 0\<close>.
\<close>

definition slice_to :: "int \<Rightarrow> 'a list \<Rightarrow> 'a list" where
  "slice_to n xs =
     (if 0 \<le> n then take (nat n) xs else take (nat (int (length xs) + n)) xs)"

definition get_top_persons :: "counts \<Rightarrow> person list \<Rightarrow> int \<Rightarrow> error + entry list" where
  "get_top_persons references db n =
     (case scan_references references db [] of
        Inl e \<Rightarrow> Inl e
      | Inr result \<Rightarrow> Inr (slice_to n (sorted_reverse result)))"

section \<open>load_data\<close>

text \<open>
  A path yielded by \<open>data_dir.glob("*-1.xml")\<close>, represented by what
  \<open>read_text\<close> does on it: it returns the text, or fails.
\<close>

datatype path = Readable xml_text | Unreadable

fun read_text :: "path \<Rightarrow> error + xml_text" where
  "read_text (Readable text) = Inr text"
| "read_text Unreadable = Inl OSError"

text \<open>
  The data directory: the paths matching the pattern, in the order the generator
  yields them, and for each file name the outcome of
  \<open>json.loads((data_dir / db_file).read_text())\<close>.
\<close>

record directory =
  glob :: "path list"
  loads :: "string \<Rightarrow> error + person list"

text \<open>
  The loop \<open>while True: xml_files.append(next(file_list).read_text())\<close>. The
  first argument is what the generator \<open>file_list\<close> has left; \<open>next\<close> on an
  exhausted generator raises \<open>StopIteration\<close>. The loop has no \<open>break\<close>.
\<close>

fun while_true :: "path list \<Rightarrow> xml_text list \<Rightarrow> error + xml_text list" where
  "while_true [] xml_files = Inl StopIteration"
| "while_true (p # file_list) xml_files =
     (case read_text p of
        Inl e \<Rightarrow> Inl e
      | Inr text \<Rightarrow> while_true file_list (xml_files @ [text]))"

definition load_data :: "directory \<Rightarrow> string \<Rightarrow> error + (xml_text list \<times> person list)" where
  "load_data data_dir db_file =
     (case while_true (glob data_dir) [] of
        Inl e \<Rightarrow> Inl e
      | Inr xml_files \<Rightarrow>
          (case loads data_dir db_file of
             Inl e \<Rightarrow> Inl e
           | Inr db \<Rightarrow> Inr (xml_files, db)))"

section \<open>main\<close>

definition DB_FILE :: string where
  "DB_FILE = ''persons.json''"

definition TOP :: int where
  "TOP = 10"

text \<open>An integer in an f-string: its decimal digits, with a sign when negative.\<close>

definition digit :: "nat \<Rightarrow> char" where
  "digit d = ''0123456789'' ! d"

fun str_nat :: "nat \<Rightarrow> string" where
  "str_nat n = (if n < 10 then [digit n] else str_nat (n div 10) @ [digit (n mod 10)])"

declare str_nat.simps [simp del]

definition str_int :: "int \<Rightarrow> string" where
  "str_int i = (if i < 0 then ''-'' @ str_nat (nat (- i)) else str_nat (nat i))"

text \<open>
  The two f-strings that \<open>main\<close> prints. Strings are byte lists here, so the
  letter a-umlaut of the header is its two UTF-8 bytes.
\<close>

definition header :: string where
  "header =
     ''Die '' @ str_int TOP @ '' am h'' @ [CHR 0xC3, CHR 0xA4]
       @ ''ufigsten referenzierten Personen sind:''"

fun line :: "entry \<Rightarrow> string" where
  "line (name, person_id, count) =
     name @ '' ('' @ person_id @ '') - '' @ str_int count @ '' Referenzen''"

text \<open>
  The statements of \<open>main\<close> that follow the call of \<open>load_data\<close>, on the values
  it returned. The result is the list of the lines printed; all the statements
  that can fail come before the first \<open>print\<close>.
\<close>

definition main_loaded :: "xml_text list \<Rightarrow> person list \<Rightarrow> int \<Rightarrow> error + string list" where
  "main_loaded xml_files db_dump top_n =
     (if length xml_files \<noteq> 18 then Inl AssertionError
      else
        (case extract_referenced_persons xml_files of
           Inl e \<Rightarrow> Inl e
         | Inr persons \<Rightarrow>
             (case get_top_persons persons db_dump top_n of
                Inl e \<Rightarrow> Inl e
              | Inr top_names \<Rightarrow>
                  if int (length top_names) \<noteq> top_n then Inl AssertionError
                  else
                    (case top_names of
                       [] \<Rightarrow> Inl IndexError
                     | first # others \<Rightarrow>
                         if fst first \<noteq> ''Rudolf'' then Inl AssertionError
                         else Inr (header # map line top_names)))))"

definition main :: "directory \<Rightarrow> int \<Rightarrow> error + string list" where
  "main data_dir top_n =
     (case load_data data_dir DB_FILE of
        Inl e \<Rightarrow> Inl e
      | Inr (xml_files, db_dump) \<Rightarrow> main_loaded xml_files db_dump top_n)"

section \<open>Concrete inputs\<close>

text \<open>
  Documents and database dumps on which the functions are run below. A document
  is a \<open>TEI\<close> root with a \<open>body\<close> that holds the person references, each
  an empty element with the attribute \<open>ref\<close>.
\<close>

definition ref_element :: "string \<Rightarrow> string \<Rightarrow> element" where
  "ref_element name r = Element (''{'' @ tei @ ''}'' @ name) [''ref'' \<mapsto> r] []"

definition tei_root :: "element list \<Rightarrow> element" where
  "tei_root persons =
     Element (''{'' @ tei @ ''}TEI'') Map.empty
       [Element (''{'' @ tei @ ''}body'') Map.empty persons]"

definition document :: "element list \<Rightarrow> xml_text" where
  "document persons = WellFormed (tei_root persons)"

text \<open>The document of Scenario A, with the tag \<open>persName\<close> of the TEI schema.\<close>

definition scenario_A :: xml_text where
  "scenario_A =
     document
       [ref_element ''persName'' ''P000123456'',
        ref_element ''persName'' ''P0001234-x'',
        ref_element ''persName'' ''P000123456'']"

definition rudolf :: person where
  "rudolf = [''id'' \<mapsto> ''P000123456'', ''name'' \<mapsto> ''Rudolf'']"

text \<open>The same three references under the tag that \<open>findall\<close> looks for.\<close>

definition repeated_refs :: xml_text where
  "repeated_refs =
     document
       [ref_element ''persname'' ''P000123456'',
        ref_element ''persname'' ''P0001234-x'',
        ref_element ''persname'' ''P000123456'']"

text \<open>Two raw identifiers with the same first nine characters.\<close>

definition shared_prefix :: xml_text where
  "shared_prefix =
     document
       [ref_element ''persname'' ''P00012345a'',
        ref_element ''persname'' ''P00012345b'']"

text \<open>
  A reference with an empty attribute value, next to one with no attribute and
  one with a short value.
\<close>

definition empty_ref :: element where
  "empty_ref =
     tei_root
       [ref_element ''persname'' [],
        Element persname_tag Map.empty [],
        ref_element ''persname'' ''P1'']"

text \<open>Records keyed by the nine-character identifier.\<close>

definition anna :: person where
  "anna = [''id'' \<mapsto> ''P00000001'', ''name'' \<mapsto> ''Anna'']"

definition bruno :: person where
  "bruno = [''id'' \<mapsto> ''P00000002'', ''name'' \<mapsto> ''Bruno'']"

definition clara :: person where
  "clara = [''id'' \<mapsto> ''P00000003'', ''name'' \<mapsto> ''Clara'']"

text \<open>A record with the keys of the dump as the script's header describes it.\<close>

definition rudolf_dump :: person where
  "rudolf_dump = [''ID'' \<mapsto> ''P00012345'', ''name'' \<mapsto> ''Rudolf'']"

text \<open>A document that refers to a person by the name instead of the identifier.\<close>

definition named_ref :: xml_text where
  "named_ref = document [ref_element ''persname'' ''Rudolf'']"

definition two_files :: directory where
  "two_files =
     \<lparr>glob = [Readable scenario_A, Readable repeated_refs], loads = (\<lambda>f. Inr [rudolf])\<rparr>"

definition no_files :: directory where
  "no_files = \<lparr>glob = [], loads = (\<lambda>f. Inr [rudolf])\<rparr>"

section \<open>Properties of load_data\<close>

text \<open>
  The loop can only be left through an exception: whatever the directory holds,
  \<open>load_data\<close> raises and its \<open>return\<close> is never reached.
\<close>

lemma while_true_raises: "\<exists>e. while_true file_list xml_files = Inl e"
  by (induction file_list arbitrary: xml_files) (auto split: sum.splits)

lemma load_data_raises: "\<exists>e. load_data data_dir db_file = Inl e"
proof -
  obtain e where "while_true (glob data_dir) [] = Inl e"
    using while_true_raises by blast
  then show ?thesis by (simp add: load_data_def)
qed

text \<open>
  C2: for a directory with finitely many matching files, \<open>load_data\<close> should
  end after the last file and return the texts with the parsed dump. On a
  directory with two readable files, and on one with none, the call of \<open>next\<close>
  on the exhausted generator raises \<open>StopIteration\<close>, which leaves the function.
\<close>

theorem load_data_StopIteration:
  "load_data two_files DB_FILE = Inl StopIteration \<and>
   load_data no_files DB_FILE = Inl StopIteration"
  by (simp add: load_data_def two_files_def no_files_def)

section \<open>Properties of extract_referenced_persons\<close>

lemma setitem_keys: "fst ` set (setitem d k v) = insert k (fst ` set d)"
  by (induction d k v rule: setitem.induct) auto

lemma setitem_values: "snd ` set (setitem d k v) \<subseteq> insert v (snd ` set d)"
  by (induction d k v rule: setitem.induct) auto

lemma findall_has_ref: "e \<in> set (findall root) \<Longrightarrow> get e ''ref'' \<noteq> None"
  by (auto simp: findall_def has_ref_def split: option.splits)

lemma count_matches_keys:
  "\<forall>e \<in> set ms. get e ''ref'' \<noteq> None \<Longrightarrow>
   \<exists>persons'. count_matches ms persons = Inr persons' \<and>
     fst ` set persons' =
       fst ` set persons \<union> {take 9 r | r e. e \<in> set ms \<and> get e ''ref'' = Some r}"
proof (induction ms arbitrary: persons)
  case Nil
  then show ?case by simp
next
  case (Cons m ms)
  from Cons.prems obtain r where r: "get m ''ref'' = Some r" by auto
  from Cons.prems have "\<forall>e \<in> set ms. get e ''ref'' \<noteq> None" by simp
  from Cons.IH [OF this, of "setitem persons (take 9 r) 1"]
  obtain persons' where
    run: "count_matches ms (setitem persons (take 9 r) 1) = Inr persons'" and
    keys: "fst ` set persons' =
       fst ` set (setitem persons (take 9 r) 1) \<union>
         {take 9 r | r e. e \<in> set ms \<and> get e ''ref'' = Some r}"
    by blast
  from run r have "count_matches (m # ms) persons = Inr persons'" by simp
  moreover from keys r have "fst ` set persons' =
       fst ` set persons \<union> {take 9 r | r e. e \<in> set (m # ms) \<and> get e ''ref'' = Some r}"
    by (auto simp: setitem_keys)
  ultimately show ?case by blast
qed

lemma count_files_keys:
  "\<exists>persons'. count_files (map WellFormed roots) persons = Inr persons' \<and>
     fst ` set persons' =
       fst ` set persons \<union>
         {take 9 r | r root e. root \<in> set roots \<and> e \<in> set (findall root) \<and> get e ''ref'' = Some r}"
proof (induction roots arbitrary: persons)
  case Nil
  then show ?case by simp
next
  case (Cons root roots)
  have "\<forall>e \<in> set (findall root). get e ''ref'' \<noteq> None"
    by (simp add: findall_has_ref)
  from count_matches_keys [OF this, of persons]
  obtain p1 where
    run1: "count_matches (findall root) persons = Inr p1" and
    keys1: "fst ` set p1 =
       fst ` set persons \<union> {take 9 r | r e. e \<in> set (findall root) \<and> get e ''ref'' = Some r}"
    by blast
  from Cons.IH [of p1] obtain p2 where
    run2: "count_files (map WellFormed roots) p1 = Inr p2" and
    keys2: "fst ` set p2 =
       fst ` set p1 \<union>
         {take 9 r | r root e. root \<in> set roots \<and> e \<in> set (findall root) \<and> get e ''ref'' = Some r}"
    by blast
  from run1 run2 have "count_files (map WellFormed (root # roots)) persons = Inr p2" by simp
  moreover from keys1 keys2 have "fst ` set p2 =
       fst ` set persons \<union>
         {take 9 r | r root' e. root' \<in> set (root # roots) \<and> e \<in> set (findall root') \<and> get e ''ref'' = Some r}"
    by auto
  ultimately show ?case by blast
qed

lemma count_matches_values:
  "count_matches ms persons = Inr persons' \<Longrightarrow> snd ` set persons \<subseteq> {1}
     \<Longrightarrow> snd ` set persons' \<subseteq> {1}"
proof (induction ms arbitrary: persons)
  case Nil
  then show ?case by simp
next
  case (Cons m ms)
  from Cons.prems(1) obtain r where r: "get m ''ref'' = Some r"
    by (auto split: option.splits)
  with Cons.prems(1) have run: "count_matches ms (setitem persons (take 9 r) 1) = Inr persons'"
    by simp
  from setitem_values [of persons "take 9 r" 1] Cons.prems(2)
  have "snd ` set (setitem persons (take 9 r) 1) \<subseteq> {1}" by auto
  from Cons.IH [OF run this] show ?case .
qed

lemma count_files_values:
  "count_files xml_files persons = Inr persons' \<Longrightarrow> snd ` set persons \<subseteq> {1}
     \<Longrightarrow> snd ` set persons' \<subseteq> {1}"
proof (induction xml_files arbitrary: persons)
  case Nil
  then show ?case by simp
next
  case (Cons f rest)
  from Cons.prems(1) obtain root p1 where
    "fromstring f = Inr root" and
    run1: "count_matches (findall root) persons = Inr p1" and
    run2: "count_files rest p1 = Inr persons'"
    by (auto split: sum.splits)
  from count_matches_values [OF run1 Cons.prems(2)] have "snd ` set p1 \<subseteq> {1}" .
  from Cons.IH [OF run2 this] show ?case .
qed

lemma extract_counts_are_one:
  "extract_referenced_persons xml_files = Inr persons \<Longrightarrow> (k, v) \<in> set persons \<Longrightarrow> v = 1"
  using count_files_values [of xml_files "[]" persons]
  by (force simp: extract_referenced_persons_def)

text \<open>
  C1: the count of an identifier should be the number of its occurrences in all
  documents. Two files that each refer to \<open>P000123456\<close> twice and to
  \<open>P0001234-x\<close> once give the count 1 for both keys: the assignment
  \<open>persons[ref] = 1\<close> overwrites.
\<close>

theorem extract_overwrites_count:
  "extract_referenced_persons [repeated_refs, repeated_refs] =
     Inr [(''P00012345'', 1), (''P0001234-'', 1)]"
  by code_simp

text \<open>
  C5: every person reference of a document should be found, under the tag
  \<open>persName\<close>, and Scenario A should end in the line for Rudolf with two
  references. The path expression names the tag \<open>persname\<close>, so in the document
  of Scenario A nothing matches, the dictionary stays empty and so does the
  ranking.
\<close>

theorem scenario_A_finds_nothing:
  "extract_referenced_persons [scenario_A] = Inr [] \<and>
   get_top_persons [] [rudolf] 1 = Inr []"
  by code_simp

text \<open>
  With the tag in lower case the three references are found, but each key is
  counted once, and the nine-character key \<open>P00012345\<close> is not the name of any
  record, so the ranking is empty again.
\<close>

lemma scenario_A_lower_case:
  "extract_referenced_persons [repeated_refs] =
     Inr [(''P00012345'', 1), (''P0001234-'', 1)] \<and>
   get_top_persons [(''P00012345'', 1), (''P0001234-'', 1)] [rudolf] 1 = Inr []"
  by code_simp

text \<open>
  C6: the key is the first nine characters of the attribute value, and two raw
  identifiers with the same first nine characters should share a key whose count
  is the sum of their occurrences. The two identifiers \<open>P00012345a\<close> and
  \<open>P00012345b\<close> do share the key \<open>P00012345\<close>, but its count is 1, not 2.
\<close>

theorem shared_prefix_not_summed:
  "extract_referenced_persons [shared_prefix] = Inr [(''P00012345'', 1)]"
  by code_simp

text \<open>
  C7, as stated: a match with an empty \<open>ref\<close> should be skipped. The document
  \<open>empty_ref\<close> has one reference with the empty value, one element without
  the attribute and one reference \<open>P1\<close>; the empty string becomes a key.
\<close>

theorem empty_ref_is_counted:
  "extract_referenced_persons [WellFormed empty_ref] = Inr [([], 1), (''P1'', 1)]"
  by code_simp

text \<open>
  C7, amended: an element without the attribute \<open>ref\<close> is never among the
  matches, and on well-formed documents the extraction returns a dictionary
  whose keys are exactly the first nine characters of the \<open>ref\<close> values of the
  matches; an empty value is such a value, so it is not skipped and the empty
  string is a key.
\<close>

theorem extract_skips_absent_counts_empty:
  "(\<forall>e \<in> set (findall root). get e ''ref'' \<noteq> None) \<and>
   (\<exists>persons. extract_referenced_persons (map WellFormed roots) = Inr persons \<and>
      fst ` set persons =
        {take 9 r | r root e. root \<in> set roots \<and> e \<in> set (findall root) \<and> get e ''ref'' = Some r})"
  using count_files_keys [of roots "[]"]
  by (simp add: extract_referenced_persons_def findall_has_ref)

lemma findall_empty_ref:
  "findall empty_ref = [ref_element ''persname'' [], ref_element ''persname'' ''P1'']"
  by (simp add: findall_def empty_ref_def tei_root_def ref_element_def persname_tag_def
      has_ref_def get_def)

theorem extract_skips_absent_counts_empty_witness:
  "findall empty_ref = [ref_element ''persname'' [], ref_element ''persname'' ''P1''] \<and>
   get (ref_element ''persname'' []) ''ref'' = Some [] \<and>
   (\<exists>persons. extract_referenced_persons [WellFormed empty_ref] = Inr persons \<and>
      [] \<in> fst ` set persons)"
proof -
  have m: "findall empty_ref = [ref_element ''persname'' [], ref_element ''persname'' ''P1'']"
    by (rule findall_empty_ref)
  have g: "get (ref_element ''persname'' []) ''ref'' = Some []"
    by (simp add: get_def ref_element_def)
  from extract_skips_absent_counts_empty [of empty_ref "[empty_ref]"]
  obtain persons where
    run: "extract_referenced_persons [WellFormed empty_ref] = Inr persons" and
    keys: "fst ` set persons =
        {take 9 r | r root e. root \<in> set [empty_ref] \<and> e \<in> set (findall root) \<and> get e ''ref'' = Some r}"
    by auto
  from m g have "take 9 [] \<in> {take 9 r | r root e. root \<in> set [empty_ref] \<and> e \<in> set (findall root) \<and> get e ''ref'' = Some r}"
    by fastforce
  with keys have "[] \<in> fst ` set persons" by simp
  with run m g show ?thesis by blast
qed

section \<open>Properties of get_top_persons\<close>

text \<open>
  C3: the join should compare the referenced identifier with the identifier of
  the record. The code compares it with \<open>person["name"]\<close>: the reference to
  Anna's identifier finds no record, and a reference that spells her name does.
\<close>

theorem get_top_persons_joins_on_name:
  "get_top_persons [(''P00000001'', 2)] [anna] 1 = Inr [] \<and>
   get_top_persons [(''Anna'', 2)] [anna] 1 = Inr [(''Anna'', ''P00000001'', 2)]"
  by code_simp

text \<open>The slice never returns more than \<open>n\<close> entries for \<open>n \<ge> 0\<close>.\<close>

lemma get_top_persons_at_most_n:
  "get_top_persons references db n = Inr top_names \<Longrightarrow> 0 \<le> n
     \<Longrightarrow> int (length top_names) \<le> n"
  by (auto simp: get_top_persons_def slice_to_def split: sum.splits)

text \<open>
  C4: the result should have \<open>min(n, number of resolvable identifiers)\<close>
  entries, and \<open>n = 0\<close> should give the empty list without an error. With two
  referenced identifiers that both have a record and \<open>n = 5\<close> the result is
  empty instead of two entries, since no name equals an identifier; and with a
  record of the dump, whose identifier is under the key \<open>ID\<close>, a match raises
  \<open>KeyError\<close> also for \<open>n = 0\<close>.
\<close>

theorem get_top_persons_not_min:
  "get_top_persons [(''P00000001'', 2), (''P00000002'', 1)] [anna, bruno] 5 = Inr [] \<and>
   get_top_persons [(''Rudolf'', 1)] [rudolf_dump] 0 = Inl (KeyError ''id'')"
  by code_simp

lemma sorted_reverse_sorted:
  "sorted_wrt (\<lambda>a b. refcount b \<le> refcount a) (sorted_reverse result)"
proof -
  have "sorted (map refcount (sort_key refcount (rev result)))" by simp
  then have "sorted_wrt (\<lambda>a b. refcount a \<le> refcount b) (sort_key refcount (rev result))"
    by (simp add: sorted_map)
  then show ?thesis by (simp add: sorted_reverse_def sorted_wrt_rev)
qed

lemma sorted_reverse_stable:
  "filter (\<lambda>x. refcount x = c) (sorted_reverse result) = filter (\<lambda>x. refcount x = c) result"
proof -
  have "filter (\<lambda>x. refcount x = c) (sort_key refcount (rev result)) =
        filter (\<lambda>x. refcount x = c) (rev result)"
    by (rule sort_key_stable)
  then show ?thesis by (simp add: sorted_reverse_def rev_filter [symmetric])
qed

lemma slice_to_prefix: "prefix (slice_to n xs) xs"
  by (simp add: slice_to_def take_is_prefix)

text \<open>
  C8: the result is sorted by count in non-increasing order, and ties are
  broken in one fixed way: the sort is stable, so the entries with one count
  stand in the order in which the two loops appended them (the order of the
  items of \<open>references\<close>, then the order of the records), and the slice keeps a
  prefix of them.
\<close>

theorem get_top_persons_sorted_stable:
  assumes "get_top_persons references db n = Inr top_names"
  shows "sorted_wrt (\<lambda>a b. refcount b \<le> refcount a) top_names \<and>
         (\<exists>result. scan_references references db [] = Inr result \<and>
            (\<forall>c. prefix (filter (\<lambda>x. refcount x = c) top_names)
                         (filter (\<lambda>x. refcount x = c) result)))"
proof -
  from assms obtain result where
    run: "scan_references references db [] = Inr result" and
    top_names: "top_names = slice_to n (sorted_reverse result)"
    by (auto simp: get_top_persons_def split: sum.splits)
  have "prefix top_names (sorted_reverse result)"
    unfolding top_names by (rule slice_to_prefix)
  then obtain zs where zs: "sorted_reverse result = top_names @ zs"
    by (auto simp: prefix_def)
  have "sorted_wrt (\<lambda>a b. refcount b \<le> refcount a) (top_names @ zs)"
    using sorted_reverse_sorted [of result] zs by simp
  then have sorted: "sorted_wrt (\<lambda>a b. refcount b \<le> refcount a) top_names"
    by (simp add: sorted_wrt_append)
  have "prefix (filter (\<lambda>x. refcount x = c) top_names) (filter (\<lambda>x. refcount x = c) result)" for c
  proof -
    have "prefix (filter (\<lambda>x. refcount x = c) top_names)
                 (filter (\<lambda>x. refcount x = c) (sorted_reverse result))"
      using zs by (simp add: prefix_def)
    then show ?thesis by (simp add: sorted_reverse_stable)
  qed
  with run sorted show ?thesis by blast
qed

theorem get_top_persons_sorted_stable_witness:
  "get_top_persons [(''Bruno'', 2), (''Anna'', 3), (''Clara'', 2)] [anna, bruno, clara] 3 =
     Inr [(''Anna'', ''P00000001'', 3), (''Bruno'', ''P00000002'', 2), (''Clara'', ''P00000003'', 2)] \<and>
   sorted_wrt (\<lambda>a b. refcount b \<le> refcount a)
     [(''Anna'', ''P00000001'', 3), (''Bruno'', ''P00000002'', 2), (''Clara'', ''P00000003'', 2)] \<and>
   (\<exists>result.
      scan_references [(''Bruno'', 2), (''Anna'', 3), (''Clara'', 2)] [anna, bruno, clara] [] =
        Inr result \<and>
      (\<forall>c. prefix
         (filter (\<lambda>x. refcount x = c) [(''Anna'', ''P00000001'', 3), (''Bruno'', ''P00000002'', 2), (''Clara'', ''P00000003'', 2)])
         (filter (\<lambda>x. refcount x = c) result)))"
proof -
  have run: "get_top_persons [(''Bruno'', 2), (''Anna'', 3), (''Clara'', 2)] [anna, bruno, clara] 3 =
     Inr [(''Anna'', ''P00000001'', 3), (''Bruno'', ''P00000002'', 2), (''Clara'', ''P00000003'', 2)]"
    by code_simp
  from get_top_persons_sorted_stable [OF run] run show ?thesis by blast
qed

text \<open>Both loops raise nothing but \<open>KeyError\<close>.\<close>

lemma scan_db_KeyError:
  "scan_db person_id count db result = Inl e \<Longrightarrow> \<exists>k. e = KeyError k"
  by (induction db arbitrary: result) (auto split: option.splits if_splits)

lemma scan_db_missing_id:
  "person \<in> set db \<Longrightarrow> person ''name'' = Some person_id \<Longrightarrow> person ''id'' = None
     \<Longrightarrow> \<exists>e. scan_db person_id count db result = Inl e"
  by (induction db arbitrary: result) (auto split: option.splits)

lemma scan_references_KeyError:
  "scan_references references db result = Inl e \<Longrightarrow> \<exists>k. e = KeyError k"
proof (induction references arbitrary: result)
  case Nil
  then show ?case by simp
next
  case (Cons item items)
  obtain person_id count where item: "item = (person_id, count)" by (cases item)
  show ?case
  proof (cases "scan_db person_id count db result")
    case (Inl e')
    with Cons.prems item show ?thesis by (auto dest: scan_db_KeyError)
  next
    case (Inr result')
    with Cons.prems item have "scan_references items db result' = Inl e" by simp
    then show ?thesis by (rule Cons.IH)
  qed
qed

lemma scan_references_missing_id:
  "(person_id, count) \<in> set references \<Longrightarrow> person \<in> set db \<Longrightarrow>
   person ''name'' = Some person_id \<Longrightarrow> person ''id'' = None
     \<Longrightarrow> \<exists>e. scan_references references db result = Inl e"
proof (induction references arbitrary: result)
  case Nil
  then show ?case by simp
next
  case (Cons item items)
  obtain p c where item: "item = (p, c)" by (cases item)
  show ?case
  proof (cases "scan_db p c db result")
    case (Inl e')
    with item show ?thesis by simp
  next
    case (Inr result')
    have "item \<noteq> (person_id, count)"
    proof
      assume "item = (person_id, count)"
      with item Inr scan_db_missing_id [OF Cons.prems(2,3,4), of count result]
      show False by simp
    qed
    with Cons.prems(1) have "(person_id, count) \<in> set items" by simp
    from Cons.IH [OF this Cons.prems(2,3,4)] item Inr show ?thesis by simp
  qed
qed

text \<open>
  C10: when a record whose \<open>name\<close> equals a key of \<open>references\<close> has no key
  \<open>id\<close>, the call raises \<open>KeyError\<close>; so it returns a ranking only if every
  such record has the key.
\<close>

theorem get_top_persons_KeyError:
  assumes "(person_id, count) \<in> set references" and "person \<in> set db"
    and "person ''name'' = Some person_id" and "person ''id'' = None"
  shows "\<exists>k. get_top_persons references db n = Inl (KeyError k)"
proof -
  from scan_references_missing_id [OF assms]
  obtain e where e: "scan_references references db [] = Inl e" by blast
  with scan_references_KeyError obtain k where "e = KeyError k" by blast
  with e show ?thesis by (simp add: get_top_persons_def)
qed

theorem get_top_persons_KeyError_witness:
  "(''Rudolf'', 1) \<in> set [(''Rudolf'', 1::int)] \<and> rudolf_dump \<in> set [rudolf_dump]
     \<and> rudolf_dump ''name'' = Some ''Rudolf'' \<and> rudolf_dump ''id'' = None
     \<and> (\<exists>k. get_top_persons [(''Rudolf'', 1)] [rudolf_dump] 10 = Inl (KeyError k))"
  using get_top_persons_KeyError [of "''Rudolf''" 1 "[(''Rudolf'', 1)]" rudolf_dump "[rudolf_dump]" 10]
  by (simp add: rudolf_dump_def)

section \<open>Properties of main\<close>

text \<open>\<open>main\<close> never gets past \<open>load_data\<close>.\<close>

lemma main_raises: "\<exists>e. main data_dir top_n = Inl e"
proof -
  obtain e where "load_data data_dir DB_FILE = Inl e"
    using load_data_raises by blast
  then show ?thesis by (simp add: main_def)
qed

text \<open>
  C9: the header should state the requested number. With 18 documents, the
  record of Rudolf and \<open>top_n = 1\<close>, the statements after the loading print one
  entry under a header that states \<open>TOP\<close>, which is 10.
\<close>

theorem main_header_states_TOP:
  "main_loaded (replicate 18 named_ref) [rudolf] 1 =
     Inr [''Die 10 am h'' @ [CHR 0xC3, CHR 0xA4] @ ''ufigsten referenzierten Personen sind:'',
          ''Rudolf (P000123456) - 1 Referenzen'']"
  by code_simp

end
